theory Spec2Isabelle
  imports Complex_Main
begin

section \<open>The Enter L2 Python client (\<^verbatim>\<open>enterl2/client.py\<close>)\<close>

text \<open>
  \<^verbatim>\<open>EnterL2Client\<close> is a thin layer over collaborators whose code lives in other
  modules (\<^verbatim>\<open>provider\<close>, \<^verbatim>\<open>wallet\<close>, \<^verbatim>\<open>services\<close>) and in the \<^verbatim>\<open>eth_account\<close>
  library. The embedding keeps the client's own fields in a record, threads a second
  record for everything outside the client object (the collaborators, the invocations
  of callables, standard output), and takes the behaviour of the collaborators, of the
  registered callables and of standard output as a parameter: every call to a
  collaborator is logged and answered by the environment, with either a value or a raised
  exception; every invocation of a callable is logged, and the environment gives the
  calls of \<open>on\<close> and \<open>off\<close> that the callable makes on the client and the value it returns
  or the exception it raises. What a callable does to anything but the registry is not
  part of the embedding.
\<close>

subsection \<open>Values and exceptions\<close>

text \<open>
  \<^verbatim>\<open>Decimal\<close> amounts are only passed through by the client; they are modelled as
  rationals. Values whose shape the client never inspects (\<^verbatim>\<open>TransactionResponse\<close>,
  \<^verbatim>\<open>NetworkInfo\<close>, the \<^verbatim>\<open>Any\<close> payload of an event) are values of \<open>pyval\<close>.
\<close>

type_synonym Decimal = rat

datatype pyval = PyNone | PyStr string | PyInt int | PyDecimal Decimal | PyBool bool

text \<open>
  Exceptions. \<^verbatim>\<open>EnterL2Error\<close> is the only class the client raises itself; it is taken
  to derive from \<^verbatim>\<open>Exception\<close>, and its text is its message. The others come from
  the collaborators and the callables:
  \<^item> \<open>Raised cls msg\<close>, an instance of a class \<open>cls\<close> that derives from \<^verbatim>\<open>Exception\<close>,
    with text \<open>msg\<close>;
  \<^item> \<open>RaisedBase cls msg\<close>, an instance of a class that derives from
    \<^verbatim>\<open>BaseException\<close> but not from \<^verbatim>\<open>Exception\<close> (\<^verbatim>\<open>SystemExit\<close>,
    \<^verbatim>\<open>KeyboardInterrupt\<close>, \<^verbatim>\<open>asyncio.CancelledError\<close>);
  \<^item> \<open>Unprintable cls x\<close>, an instance of a class that derives from \<^verbatim>\<open>Exception\<close>
    and whose \<^verbatim>\<open>__str__\<close> raises \<open>x\<close>.
\<close>

datatype exn =
    EnterL2Error string
  | Raised string string
  | RaisedBase string string
  | Unprintable string exn

text \<open>What \<^verbatim>\<open>except Exception\<close> catches.\<close>

fun is_Exception :: "exn \<Rightarrow> bool" where
  "is_Exception (EnterL2Error msg) = True"
| "is_Exception (Raised cls msg) = True"
| "is_Exception (RaisedBase cls msg) = False"
| "is_Exception (Unprintable cls x) = True"

text \<open>The class of an exception, by name.\<close>

fun exn_class :: "exn \<Rightarrow> string" where
  "exn_class (EnterL2Error msg) = ''EnterL2Error''"
| "exn_class (Raised cls msg) = cls"
| "exn_class (RaisedBase cls msg) = cls"
| "exn_class (Unprintable cls x) = cls"

text \<open>
  \<^verbatim>\<open>str(e)\<close>, which is also what \<^verbatim>\<open>{e}\<close> in an f-string evaluates: the text of
  the exception, or the exception that forming the text raises.
\<close>

fun str :: "exn \<Rightarrow> exn + string" where
  "str (EnterL2Error msg) = Inr msg"
| "str (Raised cls msg) = Inr msg"
| "str (RaisedBase cls msg) = Inr msg"
| "str (Unprintable cls x) = Inl x"

subsection \<open>Collaborators\<close>

text \<open>\<^verbatim>\<open>LocalAccount\<close> of \<^verbatim>\<open>eth_account\<close>: the client reads its \<^verbatim>\<open>address\<close> only.\<close>

datatype LocalAccount = LocalAccount (account_address: string)

datatype WalletType = CONSUMER | MERCHANT

text \<open>
  The two dictionaries the client builds: the payment request, keys \<^verbatim>\<open>to\<close>,
  \<^verbatim>\<open>amount\<close>, \<^verbatim>\<open>token_address\<close>, \<^verbatim>\<open>description\<close>, and the merchant wallet
  options, keys \<^verbatim>\<open>whitelist_enabled\<close>, \<^verbatim>\<open>daily_limit\<close>.
\<close>

record payment_request =
  req_to :: string
  req_amount :: Decimal
  req_token_address :: "string option"
  req_description :: "string option"

record wallet_options =
  opt_whitelist_enabled :: bool
  opt_daily_limit :: "Decimal option"

text \<open>
  One constructor for each method of a collaborator that the client calls, with the
  arguments of the call.
\<close>

datatype call =
    Provider_set_account "LocalAccount option"
  | Provider_get_network_info
  | Provider_get_balance "string option" "string option"
  | Provider_get_transaction string
  | Provider_wait_for_transaction string int int
  | Provider_close
  | Wallet_create_wallet WalletType "wallet_options option"
  | Payment_send_payment payment_request
  | Bridge_deposit string Decimal "string option"
  | Bridge_withdraw string Decimal "string option"
  | Naming_register_name string "string option"
  | Staking_stake Decimal int
  | Staking_unstake Decimal
  | Staking_claim_rewards

text \<open>A registered callable is known by its identity.\<close>

type_synonym callable = nat

text \<open>
  A call of \<open>on\<close> or \<open>off\<close> on the client. A callable that is being invoked holds the
  client and can make such calls before it returns or raises.
\<close>

datatype registry_call = On string callable | Off string callable

fun registry_event :: "registry_call \<Rightarrow> string" where
  "registry_event (On event cb) = event"
| "registry_event (Off event cb) = event"

text \<open>
  The environment: \<open>from_key\<close> is \<^verbatim>\<open>Account.from_key\<close>; \<open>respond\<close> answers a call
  to a collaborator, given the calls made before it; \<open>callback\<close> is what invoking a
  registered callable on a payload does, given the invocations made before it: the calls
  of \<open>on\<close> and \<open>off\<close> it makes on the client, in order, and then the value it returns or
  the exception it raises; \<open>print_raises\<close> is the exception that printing a line raises,
  if any, given the lines printed before it.
\<close>

record env =
  from_key :: "string \<Rightarrow> exn + LocalAccount"
  respond :: "call list \<Rightarrow> call \<Rightarrow> exn + pyval"
  callback :: "(callable \<times> pyval) list \<Rightarrow> callable \<Rightarrow> pyval
                 \<Rightarrow> registry_call list \<times> (exn + pyval)"
  print_raises :: "string list \<Rightarrow> string \<Rightarrow> exn option"

text \<open>
  What lies outside the client object: the calls made to the collaborators, oldest
  first; the account bound to the provider; the invocations of callables made by the
  loop of \<open>emit\<close>, oldest first; the lines the client has printed.
\<close>

record world =
  calls :: "call list"
  provider_account :: "LocalAccount option"
  invoked :: "(callable \<times> pyval) list"
  stdout :: "string list"

definition collaborator_call :: "env \<Rightarrow> call \<Rightarrow> world \<Rightarrow> (exn + pyval) \<times> world" where
  "collaborator_call e k w = (respond e (calls w) k, w\<lparr>calls := calls w @ [k]\<rparr>)"

text \<open>
  Modelled from the spec: \<^verbatim>\<open>EnterL2Provider.set_account\<close> is not among the sources;
  the spec lists it as \<^verbatim>\<open>set_account(identity|none)\<close>, the operation that binds the
  identity to the provider. The binding is recorded when the call returns.
\<close>

definition provider_set_account ::
  "env \<Rightarrow> LocalAccount option \<Rightarrow> world \<Rightarrow> (exn + pyval) \<times> world" where
  "provider_set_account e a w =
     (case collaborator_call e (Provider_set_account a) w of
        (Inl x, w1) \<Rightarrow> (Inl x, w1)
      | (Inr v, w1) \<Rightarrow> (Inr v, w1\<lparr>provider_account := a\<rparr>))"

subsection \<open>The client\<close>

text \<open>
  The fields that the methods of the client read and write: \<^verbatim>\<open>_account\<close> and
  \<^verbatim>\<open>_event_callbacks\<close>.
\<close>

record EnterL2Client =
  account :: "LocalAccount option"
  event_callbacks :: "string \<rightharpoonup> callable list"

text \<open>\<^verbatim>\<open>__init__\<close>: no account, no callbacks.\<close>

definition init_client :: EnterL2Client where
  "init_client = \<lparr>account = None, event_callbacks = Map.empty\<rparr>"

definition init_world :: world where
  "init_world = \<lparr>calls = [], provider_account = None, invoked = [], stdout = []\<rparr>"

type_synonym outcome = "(exn + pyval) \<times> EnterL2Client \<times> world"

definition result_of :: "outcome \<Rightarrow> exn + pyval" where
  "result_of r = fst r"

definition client_of :: "outcome \<Rightarrow> EnterL2Client" where
  "client_of r = fst (snd r)"

definition world_of :: "outcome \<Rightarrow> world" where
  "world_of r = snd (snd r)"

subsubsection \<open>Session\<close>

text \<open>
  The handler of \<open>connect\<close>, \<^verbatim>\<open>raise EnterL2Error(f"Failed to connect: {str(e)}")\<close>:
  the exception it raises, which is the one that forming the text raises when that fails.
\<close>

definition connect_failure :: "exn \<Rightarrow> exn" where
  "connect_failure x =
     (case str x of
        Inl y \<Rightarrow> y
      | Inr s \<Rightarrow> EnterL2Error (''Failed to connect: '' @ s))"

text \<open>
  Both statements of \<open>connect\<close> are inside \<^verbatim>\<open>try\<close>; \<^verbatim>\<open>except Exception\<close> runs the
  handler, and any other exception leaves \<open>connect\<close> as it is.
\<close>

definition connect :: "env \<Rightarrow> string \<Rightarrow> EnterL2Client \<Rightarrow> world \<Rightarrow> outcome" where
  "connect e private_key c w =
     (case from_key e private_key of
        Inl x \<Rightarrow> (Inl (if is_Exception x then connect_failure x else x), c, w)
      | Inr a \<Rightarrow>
          (let c1 = c\<lparr>account := Some a\<rparr> in
           case provider_set_account e (account c1) w of
             (Inl x, w1) \<Rightarrow> (Inl (if is_Exception x then connect_failure x else x), c1, w1)
           | (Inr v, w1) \<Rightarrow> (Inr PyNone, c1, w1)))"

definition disconnect :: "env \<Rightarrow> EnterL2Client \<Rightarrow> world \<Rightarrow> outcome" where
  "disconnect e c w =
     (let c1 = c\<lparr>account := None\<rparr> in
      case provider_set_account e None w of
        (Inl x, w1) \<Rightarrow> (Inl x, c1, w1)
      | (Inr v, w1) \<Rightarrow> (Inr PyNone, c1, w1))"

definition address :: "EnterL2Client \<Rightarrow> string option" where
  "address c = (case account c of Some a \<Rightarrow> Some (account_address a) | None \<Rightarrow> None)"

definition is_connected :: "EnterL2Client \<Rightarrow> bool" where
  "is_connected c = (account c \<noteq> None)"

subsubsection \<open>Delegation\<close>

text \<open>
  \<^verbatim>\<open>return await collaborator.method(...)\<close>: one call, whose value or exception is
  the method's own.
\<close>

definition delegate :: "env \<Rightarrow> call \<Rightarrow> EnterL2Client \<Rightarrow> world \<Rightarrow> outcome" where
  "delegate e k c w = (case collaborator_call e k w of (r, w1) \<Rightarrow> (r, c, w1))"

definition not_connected :: exn where
  "not_connected = EnterL2Error ''Client not connected''"

definition get_network_info :: "env \<Rightarrow> EnterL2Client \<Rightarrow> world \<Rightarrow> outcome" where
  "get_network_info e c w = delegate e Provider_get_network_info c w"

definition get_balance :: "env \<Rightarrow> string option \<Rightarrow> EnterL2Client \<Rightarrow> world \<Rightarrow> outcome" where
  "get_balance e token_address c w =
     (if \<not> is_connected c then (Inl not_connected, c, w)
      else delegate e (Provider_get_balance (address c) token_address) c w)"

definition get_transaction :: "env \<Rightarrow> string \<Rightarrow> EnterL2Client \<Rightarrow> world \<Rightarrow> outcome" where
  "get_transaction e tx_hash c w = delegate e (Provider_get_transaction tx_hash) c w"

text \<open>The defaults of the source are \<^verbatim>\<open>confirmations=1\<close> and \<^verbatim>\<open>timeout=60\<close>.\<close>

definition wait_for_transaction ::
  "env \<Rightarrow> string \<Rightarrow> int \<Rightarrow> int \<Rightarrow> EnterL2Client \<Rightarrow> world \<Rightarrow> outcome" where
  "wait_for_transaction e tx_hash confirmations timeout c w =
     delegate e (Provider_wait_for_transaction tx_hash confirmations timeout) c w"

definition create_consumer_wallet :: "env \<Rightarrow> EnterL2Client \<Rightarrow> world \<Rightarrow> outcome" where
  "create_consumer_wallet e c w =
     (if \<not> is_connected c then (Inl not_connected, c, w)
      else delegate e (Wallet_create_wallet CONSUMER None) c w)"

text \<open>The defaults of the source are \<^verbatim>\<open>whitelist_enabled=False\<close> and \<^verbatim>\<open>daily_limit=None\<close>.\<close>

definition create_merchant_wallet ::
  "env \<Rightarrow> bool \<Rightarrow> Decimal option \<Rightarrow> EnterL2Client \<Rightarrow> world \<Rightarrow> outcome" where
  "create_merchant_wallet e whitelist_enabled daily_limit c w =
     (if \<not> is_connected c then (Inl not_connected, c, w)
      else
        (let options = \<lparr>opt_whitelist_enabled = whitelist_enabled,
                        opt_daily_limit = daily_limit\<rparr>
         in delegate e (Wallet_create_wallet MERCHANT (Some options)) c w))"

text \<open>\<^verbatim>\<open>token_address\<close> and \<^verbatim>\<open>description\<close> default to \<^verbatim>\<open>None\<close>.\<close>

definition send_payment ::
  "env \<Rightarrow> string \<Rightarrow> Decimal \<Rightarrow> string option \<Rightarrow> string option \<Rightarrow>
   EnterL2Client \<Rightarrow> world \<Rightarrow> outcome" where
  "send_payment e to amount token_address description c w =
     (if \<not> is_connected c then (Inl not_connected, c, w)
      else
        (let request = \<lparr>req_to = to, req_amount = amount,
                        req_token_address = token_address,
                        req_description = description\<rparr>
         in delegate e (Payment_send_payment request) c w))"

text \<open>
  \<^verbatim>\<open>x or y\<close> on optional strings: \<^verbatim>\<open>x\<close> when it is truthy, otherwise \<^verbatim>\<open>y\<close>.
  \<^verbatim>\<open>None\<close> and the empty string are the falsy values.
\<close>

definition py_or :: "string option \<Rightarrow> string option \<Rightarrow> string option" where
  "py_or x y = (case x of None \<Rightarrow> y | Some s \<Rightarrow> if s = [] then y else Some s)"

definition deposit ::
  "env \<Rightarrow> string \<Rightarrow> Decimal \<Rightarrow> string option \<Rightarrow> EnterL2Client \<Rightarrow> world \<Rightarrow> outcome" where
  "deposit e token_address amount l2_recipient c w =
     (if \<not> is_connected c then (Inl not_connected, c, w)
      else
        (let recipient = py_or l2_recipient (address c)
         in delegate e (Bridge_deposit token_address amount recipient) c w))"

definition withdraw ::
  "env \<Rightarrow> string \<Rightarrow> Decimal \<Rightarrow> string option \<Rightarrow> EnterL2Client \<Rightarrow> world \<Rightarrow> outcome" where
  "withdraw e token_address amount l1_recipient c w =
     (if \<not> is_connected c then (Inl not_connected, c, w)
      else
        (let recipient = py_or l1_recipient (address c)
         in delegate e (Bridge_withdraw token_address amount recipient) c w))"

definition register_name ::
  "env \<Rightarrow> string \<Rightarrow> string option \<Rightarrow> EnterL2Client \<Rightarrow> world \<Rightarrow> outcome" where
  "register_name e name resolver c w =
     (if \<not> is_connected c then (Inl not_connected, c, w)
      else delegate e (Naming_register_name name resolver) c w)"

text \<open>\<^verbatim>\<open>lock_period\<close> defaults to 0.\<close>

definition stake :: "env \<Rightarrow> Decimal \<Rightarrow> int \<Rightarrow> EnterL2Client \<Rightarrow> world \<Rightarrow> outcome" where
  "stake e amount lock_period c w =
     (if \<not> is_connected c then (Inl not_connected, c, w)
      else delegate e (Staking_stake amount lock_period) c w)"

definition unstake :: "env \<Rightarrow> Decimal \<Rightarrow> EnterL2Client \<Rightarrow> world \<Rightarrow> outcome" where
  "unstake e amount c w =
     (if \<not> is_connected c then (Inl not_connected, c, w)
      else delegate e (Staking_unstake amount) c w)"

definition claim_rewards :: "env \<Rightarrow> EnterL2Client \<Rightarrow> world \<Rightarrow> outcome" where
  "claim_rewards e c w =
     (if \<not> is_connected c then (Inl not_connected, c, w)
      else delegate e Staking_claim_rewards c w)"

subsubsection \<open>Events\<close>

text \<open>
  \<^verbatim>\<open>list.remove(x)\<close> deletes the first element equal to \<^verbatim>\<open>x\<close> and raises
  \<^verbatim>\<open>ValueError\<close> when there is none.
\<close>

definition list_remove :: "'a \<Rightarrow> 'a list \<Rightarrow> exn + 'a list" where
  "list_remove x xs =
     (if x \<in> set xs then Inr (remove1 x xs)
      else Inl (Raised ''ValueError'' ''list.remove(x): x not in list''))"

definition on :: "string \<Rightarrow> callable \<Rightarrow> EnterL2Client \<Rightarrow> EnterL2Client" where
  "on event cb c =
     (let m = (case event_callbacks c event of
                 None \<Rightarrow> (event_callbacks c)(event \<mapsto> [])
               | Some xs \<Rightarrow> event_callbacks c)
      in case m event of
           None \<Rightarrow> c\<lparr>event_callbacks := m\<rparr>
         | Some xs \<Rightarrow> c\<lparr>event_callbacks := m(event \<mapsto> xs @ [cb])\<rparr>)"

definition off :: "string \<Rightarrow> callable \<Rightarrow> EnterL2Client \<Rightarrow> EnterL2Client" where
  "off event cb c =
     (case event_callbacks c event of
        None \<Rightarrow> c
      | Some xs \<Rightarrow>
          (case list_remove cb xs of
             Inl x \<Rightarrow> c
           | Inr ys \<Rightarrow> c\<lparr>event_callbacks := (event_callbacks c)(event \<mapsto> ys)\<rparr>))"

text \<open>A sequence of \<open>on\<close> and \<open>off\<close> calls, run on the client from left to right.\<close>

fun apply_registry_call :: "registry_call \<Rightarrow> EnterL2Client \<Rightarrow> EnterL2Client" where
  "apply_registry_call (On event cb) c = on event cb c"
| "apply_registry_call (Off event cb) c = off event cb c"

fun run_registry_calls :: "registry_call list \<Rightarrow> EnterL2Client \<Rightarrow> EnterL2Client" where
  "run_registry_calls [] c = c"
| "run_registry_calls (k # ks) c = run_registry_calls ks (apply_registry_call k c)"

text \<open>
  \<^verbatim>\<open>callback(data)\<close>: the invocation is logged, the calls of \<open>on\<close> and \<open>off\<close> that
  the callable makes change the client, and the callable returns or raises.
\<close>

definition invoke :: "env \<Rightarrow> callable \<Rightarrow> pyval \<Rightarrow> EnterL2Client \<Rightarrow> world \<Rightarrow> outcome" where
  "invoke e cb d c w =
     (case callback e (invoked w) cb d of
        (ks, r) \<Rightarrow> (r, run_registry_calls ks c, w\<lparr>invoked := invoked w @ [(cb, d)]\<rparr>))"

text \<open>\<^verbatim>\<open>print(line)\<close>: the line is written, or an exception is raised.\<close>

definition print :: "env \<Rightarrow> string \<Rightarrow> world \<Rightarrow> (exn + pyval) \<times> world" where
  "print e line w =
     (case print_raises e (stdout w) line of
        Some x \<Rightarrow> (Inl x, w)
      | None \<Rightarrow> (Inr PyNone, w\<lparr>stdout := stdout w @ [line]\<rparr>))"

text \<open>
  The body of the handler, \<^verbatim>\<open>print(f"Error in event callback: {e}")\<close>: the text of
  the exception is formed, then the line is printed. Either step can raise, and nothing
  catches what it raises.
\<close>

definition report :: "env \<Rightarrow> exn \<Rightarrow> world \<Rightarrow> (exn + pyval) \<times> world" where
  "report e x w =
     (case str x of
        Inl y \<Rightarrow> (Inl y, w)
      | Inr s \<Rightarrow> print e (''Error in event callback: '' @ s) w)"

text \<open>
  \<^verbatim>\<open>for callback in self._event_callbacks[event]\<close> walks the list object of the
  registry itself: before each step the iterator compares its index \<open>i\<close> with the
  length the list has then, and takes the element the list has at \<open>i\<close> then. So a
  callable that unregisters an earlier entry makes the loop skip one, and one that
  registers an entry at each invocation keeps the loop running for ever: the loop is a
  partial function, \<open>None\<close> when it does not end. \<open>on\<close> and \<open>off\<close> never remove a key, so
  the event is a key at every step. The call is inside \<^verbatim>\<open>try\<close>; \<^verbatim>\<open>except Exception\<close>
  runs the handler and goes on; any other exception leaves the loop.
\<close>

partial_function (option) emit_loop ::
  "env \<Rightarrow> string \<Rightarrow> pyval \<Rightarrow> nat \<Rightarrow> EnterL2Client \<Rightarrow> world \<Rightarrow> outcome option" where
  "emit_loop e event d i c w =
     (case event_callbacks c event of
        None \<Rightarrow> Some (Inr PyNone, c, w)
      | Some cbs \<Rightarrow>
          if i < length cbs then
            (case invoke e (cbs ! i) d c w of
               (Inr v, c1, w1) \<Rightarrow> emit_loop e event d (Suc i) c1 w1
             | (Inl x, c1, w1) \<Rightarrow>
                 if is_Exception x then
                   (case report e x w1 of
                      (Inl y, w2) \<Rightarrow> Some (Inl y, c1, w2)
                    | (Inr v, w2) \<Rightarrow> emit_loop e event d (Suc i) c1 w2)
                 else Some (Inl x, c1, w1))
          else Some (Inr PyNone, c, w))"

definition emit ::
  "env \<Rightarrow> string \<Rightarrow> pyval \<Rightarrow> EnterL2Client \<Rightarrow> world \<Rightarrow> outcome option" where
  "emit e event d c w =
     (case event_callbacks c event of
        None \<Rightarrow> Some (Inr PyNone, c, w)
      | Some cbs \<Rightarrow> emit_loop e event d 0 c w)"

subsubsection \<open>Closing\<close>

definition close :: "env \<Rightarrow> EnterL2Client \<Rightarrow> world \<Rightarrow> outcome" where
  "close e c w =
     (case collaborator_call e Provider_close w of
        (Inl x, w1) \<Rightarrow> (Inl x, c, w1)
      | (Inr v, w1) \<Rightarrow> (Inr PyNone, c\<lparr>event_callbacks := Map.empty\<rparr>, w1))"

text \<open>\<^verbatim>\<open>__aenter__\<close> returns \<^verbatim>\<open>self\<close>.\<close>

definition aenter :: "EnterL2Client \<Rightarrow> world \<Rightarrow> EnterL2Client \<times> EnterL2Client \<times> world" where
  "aenter c w = (c, c, w)"

text \<open>
  \<^verbatim>\<open>__aexit__(exc_type, exc_val, exc_tb)\<close>: the three arguments describe the exception
  that left the block, if any; they are one optional exception here.
\<close>

definition aexit :: "env \<Rightarrow> exn option \<Rightarrow> EnterL2Client \<Rightarrow> world \<Rightarrow> outcome" where
  "aexit e exc c w =
     (case close e c w of
        (Inl x, c1, w1) \<Rightarrow> (Inl x, c1, w1)
      | (Inr v, c1, w1) \<Rightarrow> (Inr PyNone, c1, w1))"

subsection \<open>Environments and clients used as concrete inputs\<close>

text \<open>
  A stand-in for \<^verbatim>\<open>Account.from_key\<close>: a key parses when it is \<^verbatim>\<open>0x\<close> followed
  by 64 hexadecimal digits, and the address of the account is a string made from the key.
\<close>

definition is_hex_digit :: "char \<Rightarrow> bool" where
  "is_hex_digit ch = (ch \<in> set ''0123456789abcdefABCDEF'')"

definition parse_key :: "string \<Rightarrow> exn + LocalAccount" where
  "parse_key k =
     (if take 2 k = ''0x'' \<and> length k = 66 \<and> list_all is_hex_digit (drop 2 k)
      then Inr (LocalAccount (''0xA11CE'' @ take 4 (drop 2 k)))
      else Inl (Raised ''ValueError'' ''bad private key''))"

text \<open>Every collaborator answers; every callable returns; every line is printed.\<close>

definition env_ok :: env where
  "env_ok = \<lparr>from_key = parse_key,
             respond = (\<lambda>h k. Inr (PyStr ''ok'')),
             callback = (\<lambda>h cb d. ([], Inr PyNone)),
             print_raises = (\<lambda>out line. None)\<rparr>"

text \<open>The provider raises on every call.\<close>

definition env_provider_down :: env where
  "env_provider_down = \<lparr>from_key = parse_key,
             respond = (\<lambda>h k. Inl (Raised ''NetworkError'' ''unreachable'')),
             callback = (\<lambda>h cb d. ([], Inr PyNone)),
             print_raises = (\<lambda>out line. None)\<rparr>"

definition key1 :: string where
  "key1 = ''0x'' @ replicate 64 (CHR ''1'')"

definition alice :: LocalAccount where
  "alice = LocalAccount ''0xA11CE1111''"

definition connected_client :: EnterL2Client where
  "connected_client = \<lparr>account = Some alice, event_callbacks = Map.empty\<rparr>"

text \<open>Callable 2 raises a \<^verbatim>\<open>RuntimeError\<close>.\<close>

definition env_second_raises :: env where
  "env_second_raises = \<lparr>from_key = parse_key,
             respond = (\<lambda>h k. Inr (PyStr ''ok'')),
             callback = (\<lambda>h cb d. if cb = 2 then ([], Inl (Raised ''RuntimeError'' ''boom''))
                                    else ([], Inr PyNone)),
             print_raises = (\<lambda>out line. None)\<rparr>"


text \<open>Callable 2 calls \<^verbatim>\<open>sys.exit(0)\<close>, which raises \<^verbatim>\<open>SystemExit\<close>.\<close>

definition env_exit :: env where
  "env_exit = \<lparr>from_key = parse_key,
             respond = (\<lambda>h k. Inr (PyStr ''ok'')),
             callback = (\<lambda>h cb d. if cb = 2 then ([], Inl (RaisedBase ''SystemExit'' ''0''))
                                    else ([], Inr PyNone)),
             print_raises = (\<lambda>out line. None)\<rparr>"

text \<open>
  Callable 2 raises a \<^verbatim>\<open>RuntimeError\<close> and standard output is closed, so that
  \<^verbatim>\<open>print\<close> raises \<^verbatim>\<open>ValueError\<close>.
\<close>

definition env_stdout_closed :: env where
  "env_stdout_closed = \<lparr>from_key = parse_key,
             respond = (\<lambda>h k. Inr (PyStr ''ok'')),
             callback = (\<lambda>h cb d. if cb = 2 then ([], Inl (Raised ''RuntimeError'' ''boom''))
                                    else ([], Inr PyNone)),
             print_raises =
               (\<lambda>out line. Some (Raised ''ValueError'' ''I/O operation on closed file''))\<rparr>"

text \<open>
  Callable 2 raises an exception whose \<^verbatim>\<open>__str__\<close> returns a value that is not a
  string, so that forming its text raises \<^verbatim>\<open>TypeError\<close>.
\<close>

definition env_unprintable :: env where
  "env_unprintable = \<lparr>from_key = parse_key,
             respond = (\<lambda>h k. Inr (PyStr ''ok'')),
             callback = (\<lambda>h cb d.
               if cb = 2
               then ([], Inl (Unprintable ''BadError''
                                (Raised ''TypeError'' ''__str__ returned non-string'')))
               else ([], Inr PyNone)),
             print_raises = (\<lambda>out line. None)\<rparr>"

text \<open>
  Callable 2 unregisters itself with \<^verbatim>\<open>client.off("tx", itself)\<close> and then raises a
  \<^verbatim>\<open>RuntimeError\<close>.
\<close>

definition env_raise_and_leave :: env where
  "env_raise_and_leave = \<lparr>from_key = parse_key,
             respond = (\<lambda>h k. Inr (PyStr ''ok'')),
             callback = (\<lambda>h cb d.
               if cb = 2 then ([Off ''tx'' 2], Inl (Raised ''RuntimeError'' ''boom''))
               else ([], Inr PyNone)),
             print_raises = (\<lambda>out line. None)\<rparr>"

definition three_listeners :: EnterL2Client where
  "three_listeners = on ''tx'' 3 (on ''tx'' 2 (on ''tx'' 1 init_client))"

subsection \<open>The event dispatcher as the specification words it\<close>

text \<open>The callbacks of an event; an event that is not a key has none.\<close>

definition callbacks_of :: "EnterL2Client \<Rightarrow> string \<Rightarrow> callable list" where
  "callbacks_of c event = (case event_callbacks c event of None \<Rightarrow> [] | Some cbs \<Rightarrow> cbs)"


text \<open>
  The lines reported while the callbacks \<open>cbs\<close> are invoked in order, after the
  invocations \<open>h\<close>: one line for each callback that raises an exception with a text.
\<close>

fun spec_reports :: "env \<Rightarrow> (callable \<times> pyval) list \<Rightarrow> callable list \<Rightarrow> pyval \<Rightarrow> string list" where
  "spec_reports e h [] d = []"
| "spec_reports e h (cb # cbs) d =
     (case snd (callback e h cb d) of
        Inl x \<Rightarrow> (case str x of
                    Inl y \<Rightarrow> []
                  | Inr s \<Rightarrow> [''Error in event callback: '' @ s])
      | Inr v \<Rightarrow> [])
     @ spec_reports e (h @ [(cb, d)]) cbs d"

text \<open>
  The invocations and the result of an \<open>emit\<close> that has ended, for statements about a
  run on a given input.
\<close>

definition invocations :: "outcome option \<Rightarrow> (callable \<times> pyval) list option" where
  "invocations r = (case r of None \<Rightarrow> None | Some out \<Rightarrow> Some (invoked (world_of out)))"

definition raised :: "outcome option \<Rightarrow> exn option" where
  "raised r =
     (case r of
        None \<Rightarrow> None
      | Some out \<Rightarrow> (case result_of out of Inl x \<Rightarrow> Some x | Inr v \<Rightarrow> None))"

text \<open>
  An outcome of a callable after which the loop of \<open>emit\<close> reaches its handler's
  \<^verbatim>\<open>print\<close> or its next step: a value, or an exception that \<^verbatim>\<open>except Exception\<close>
  catches and whose text can be formed.
\<close>

definition keeps_going :: "exn + pyval \<Rightarrow> bool" where
  "keeps_going r =
     (case r of
        Inr v \<Rightarrow> True
      | Inl x \<Rightarrow> is_Exception x \<and> (case str x of Inl y \<Rightarrow> False | Inr s \<Rightarrow> True))"

subsection \<open>Classes of the errors raised\<close>

text \<open>An outcome that is an exception of the class named \<open>cls\<close>.\<close>

definition raises_class :: "outcome \<Rightarrow> string \<Rightarrow> bool" where
  "raises_class out cls =
     (case result_of out of Inl x \<Rightarrow> exn_class x = cls | Inr v \<Rightarrow> False)"

subsection \<open>Complete sessions\<close>

text \<open>
  A session is complete when an account is bound to the client and the same account is
  bound to the provider.
\<close>

definition fully_connected :: "EnterL2Client \<Rightarrow> world \<Rightarrow> bool" where
  "fully_connected c w = (account c \<noteq> None \<and> provider_account w = account c)"

section \<open>Properties\<close>

subsection \<open>Session guard\<close>

text \<open>
  C1, as stated, fails in the class of the error. The operations raise
  \<^verbatim>\<open>EnterL2Error("Client not connected")\<close>: an instance of \<^verbatim>\<open>EnterL2Error\<close>, the class
  that \<open>connect\<close> raises for a key that does not parse, and not of a class of its own
  named \<^verbatim>\<open>NotConnectedError\<close>, which the client never raises.
\<close>

theorem not_connected_error_class_counterexample:
  "\<not> raises_class (send_payment env_ok ''0xBEEF'' 10 None None init_client init_world)
       ''NotConnectedError''
   \<and> raises_class (send_payment env_ok ''0xBEEF'' 10 None None init_client init_world)
       ''EnterL2Error''
   \<and> raises_class (connect env_ok ''not a key'' init_client init_world) ''EnterL2Error''
   \<and> \<not> is_connected init_client"
  by (simp add: raises_class_def result_of_def send_payment_def connect_def
      connect_failure_def not_connected_def is_connected_def init_client_def env_ok_def
      parse_key_def)

text \<open>
  C1, amended. Each of the nine mutating operations (\<open>send_payment\<close>, \<open>deposit\<close>,
  \<open>withdraw\<close>, \<open>register_name\<close>, \<open>stake\<close>, \<open>unstake\<close>, \<open>claim_rewards\<close>,
  \<open>create_consumer_wallet\<close>, \<open>create_merchant_wallet\<close>), invoked on a client that is not
  connected, raises \<^verbatim>\<open>EnterL2Error\<close> with the message \<^verbatim>\<open>Client not connected\<close> and
  leaves the client and everything outside it as they were: no call to a collaborator is
  made, and the error is raised before any other work.
\<close>

theorem mutating_disconnected_fails_fast:
  "\<not> is_connected c \<Longrightarrow>
     send_payment e to amount token_address description c w
       = (Inl (EnterL2Error ''Client not connected''), c, w)
   \<and> deposit e token_address' amount l2_recipient c w
       = (Inl (EnterL2Error ''Client not connected''), c, w)
   \<and> withdraw e token_address' amount l1_recipient c w
       = (Inl (EnterL2Error ''Client not connected''), c, w)
   \<and> register_name e name resolver c w
       = (Inl (EnterL2Error ''Client not connected''), c, w)
   \<and> stake e amount lock_period c w
       = (Inl (EnterL2Error ''Client not connected''), c, w)
   \<and> unstake e amount c w
       = (Inl (EnterL2Error ''Client not connected''), c, w)
   \<and> claim_rewards e c w
       = (Inl (EnterL2Error ''Client not connected''), c, w)
   \<and> create_consumer_wallet e c w
       = (Inl (EnterL2Error ''Client not connected''), c, w)
   \<and> create_merchant_wallet e whitelist_enabled daily_limit c w
       = (Inl (EnterL2Error ''Client not connected''), c, w)"
  by (simp add: send_payment_def deposit_def withdraw_def register_name_def stake_def
      unstake_def claim_rewards_def create_consumer_wallet_def create_merchant_wallet_def
      not_connected_def)

text \<open>
  The instance at a client fresh from \<^verbatim>\<open>__init__\<close>, in an environment where every
  collaborator would answer.
\<close>

theorem mutating_disconnected_fails_fast_witness:
  "\<not> is_connected init_client
   \<and> send_payment env_ok ''0xBEEF'' 10 None None init_client init_world
       = (Inl (EnterL2Error ''Client not connected''), init_client, init_world)
   \<and> deposit env_ok ''0xT0KEN'' 10 None init_client init_world
       = (Inl (EnterL2Error ''Client not connected''), init_client, init_world)
   \<and> withdraw env_ok ''0xT0KEN'' 10 (Some ''0xB0B'') init_client init_world
       = (Inl (EnterL2Error ''Client not connected''), init_client, init_world)
   \<and> register_name env_ok ''alice.enter'' None init_client init_world
       = (Inl (EnterL2Error ''Client not connected''), init_client, init_world)
   \<and> stake env_ok 10 0 init_client init_world
       = (Inl (EnterL2Error ''Client not connected''), init_client, init_world)
   \<and> unstake env_ok 10 init_client init_world
       = (Inl (EnterL2Error ''Client not connected''), init_client, init_world)
   \<and> claim_rewards env_ok init_client init_world
       = (Inl (EnterL2Error ''Client not connected''), init_client, init_world)
   \<and> create_consumer_wallet env_ok init_client init_world
       = (Inl (EnterL2Error ''Client not connected''), init_client, init_world)
   \<and> create_merchant_wallet env_ok False None init_client init_world
       = (Inl (EnterL2Error ''Client not connected''), init_client, init_world)
   \<and> calls init_world = []"
proof -
  have h: "\<not> is_connected init_client"
    by (simp add: is_connected_def init_client_def)
  show ?thesis
    using h mutating_disconnected_fails_fast [OF h, of env_ok "''0xBEEF''" 10 None None
        init_world "''0xT0KEN''" None "Some ''0xB0B''" "''alice.enter''" None 0 False None]
    by (simp add: init_world_def)
qed

subsection \<open>Delegation\<close>

text \<open>
  C6. On a connected client, \<open>send_payment to amount\<close> with \<^verbatim>\<open>token_address\<close> and
  \<^verbatim>\<open>description\<close> left at \<^verbatim>\<open>None\<close> makes exactly one call, to the payment
  facade, with the request \<^verbatim>\<open>{to, amount, token_address: None, description: None}\<close>;
  what the facade answers (a value or an exception) is the outcome of \<open>send_payment\<close>,
  and the client is unchanged.
\<close>

theorem send_payment_delegates_once:
  "is_connected c \<Longrightarrow>
     send_payment e to amount None None c w
       = (respond e (calls w)
            (Payment_send_payment \<lparr>req_to = to, req_amount = amount,
               req_token_address = None, req_description = None\<rparr>),
          c,
          w\<lparr>calls := calls w @
              [Payment_send_payment \<lparr>req_to = to, req_amount = amount,
                 req_token_address = None, req_description = None\<rparr>]\<rparr>)"
  by (simp add: send_payment_def delegate_def collaborator_call_def Let_def)

text \<open>The scenario of the specification: recipient \<^verbatim>\<open>0xBEEF...\<close>, amount 10.\<close>

theorem send_payment_delegates_once_witness:
  "is_connected connected_client
   \<and> send_payment env_ok ''0xBEEF...'' 10 None None connected_client init_world
       = (Inr (PyStr ''ok''),
          connected_client,
          \<lparr>calls = [Payment_send_payment \<lparr>req_to = ''0xBEEF...'', req_amount = 10,
                      req_token_address = None, req_description = None\<rparr>],
           provider_account = None, invoked = [], stdout = []\<rparr>)"
proof -
  have h: "is_connected connected_client"
    by (simp add: is_connected_def connected_client_def)
  show ?thesis
    using h send_payment_delegates_once [OF h, of env_ok "''0xBEEF...''" 10 init_world]
    by (simp add: init_world_def env_ok_def)
qed

text \<open>
  C7. On a connected client, \<open>deposit\<close> and \<open>withdraw\<close> called with recipient \<^verbatim>\<open>None\<close>
  make exactly one call to the bridge facade, with the address of the session as
  recipient, and the facade's answer is their outcome.
\<close>

theorem bridge_default_recipient:
  "account c = Some a \<Longrightarrow>
     deposit e token_address amount None c w
       = (respond e (calls w)
            (Bridge_deposit token_address amount (Some (account_address a))),
          c,
          w\<lparr>calls := calls w @
              [Bridge_deposit token_address amount (Some (account_address a))]\<rparr>)
   \<and> withdraw e token_address amount None c w
       = (respond e (calls w)
            (Bridge_withdraw token_address amount (Some (account_address a))),
          c,
          w\<lparr>calls := calls w @
              [Bridge_withdraw token_address amount (Some (account_address a))]\<rparr>)
   \<and> address c = Some (account_address a)"
  by (simp add: deposit_def withdraw_def delegate_def collaborator_call_def is_connected_def
      address_def py_or_def Let_def)

theorem bridge_default_recipient_witness:
  "account connected_client = Some alice
   \<and> deposit env_ok ''0xT0KEN'' 10 None connected_client init_world
       = (Inr (PyStr ''ok''),
          connected_client,
          \<lparr>calls = [Bridge_deposit ''0xT0KEN'' 10 (Some ''0xA11CE1111'')],
           provider_account = None, invoked = [], stdout = []\<rparr>)
   \<and> withdraw env_ok ''0xT0KEN'' 10 None connected_client init_world
       = (Inr (PyStr ''ok''),
          connected_client,
          \<lparr>calls = [Bridge_withdraw ''0xT0KEN'' 10 (Some ''0xA11CE1111'')],
           provider_account = None, invoked = [], stdout = []\<rparr>)"
proof -
  have h: "account connected_client = Some alice"
    by (simp add: connected_client_def)
  show ?thesis
    using h bridge_default_recipient [OF h, of env_ok "''0xT0KEN''" 10 init_world]
    by (simp add: init_world_def env_ok_def alice_def)
qed

text \<open>
  C9. On a connected client, \<open>deposit\<close> and \<open>withdraw\<close> called with the empty string as
  recipient also pass the address of the session to the bridge facade, not the empty
  string: the source chooses the recipient with \<^verbatim>\<open>or\<close>, which replaces every falsy
  value.
\<close>

theorem bridge_empty_recipient:
  "account c = Some a \<Longrightarrow>
     deposit e token_address amount (Some []) c w
       = (respond e (calls w)
            (Bridge_deposit token_address amount (Some (account_address a))),
          c,
          w\<lparr>calls := calls w @
              [Bridge_deposit token_address amount (Some (account_address a))]\<rparr>)
   \<and> withdraw e token_address amount (Some []) c w
       = (respond e (calls w)
            (Bridge_withdraw token_address amount (Some (account_address a))),
          c,
          w\<lparr>calls := calls w @
              [Bridge_withdraw token_address amount (Some (account_address a))]\<rparr>)
   \<and> py_or (Some []) (address c) = address c
   \<and> py_or None (address c) = address c"
  by (simp add: deposit_def withdraw_def delegate_def collaborator_call_def is_connected_def
      address_def py_or_def Let_def)

theorem bridge_empty_recipient_witness:
  "account connected_client = Some alice
   \<and> deposit env_ok ''0xT0KEN'' 10 (Some []) connected_client init_world
       = (Inr (PyStr ''ok''),
          connected_client,
          \<lparr>calls = [Bridge_deposit ''0xT0KEN'' 10 (Some ''0xA11CE1111'')],
           provider_account = None, invoked = [], stdout = []\<rparr>)
   \<and> withdraw env_ok ''0xT0KEN'' 10 (Some []) connected_client init_world
       = (Inr (PyStr ''ok''),
          connected_client,
          \<lparr>calls = [Bridge_withdraw ''0xT0KEN'' 10 (Some ''0xA11CE1111'')],
           provider_account = None, invoked = [], stdout = []\<rparr>)"
proof -
  have h: "account connected_client = Some alice"
    by (simp add: connected_client_def)
  show ?thesis
    using h bridge_empty_recipient [OF h, of env_ok "''0xT0KEN''" 10 init_world]
    by (simp add: init_world_def env_ok_def alice_def)
qed

text \<open>
  C10. On a client that is not connected, \<open>get_network_info\<close>, \<open>get_transaction\<close> and
  \<open>wait_for_transaction\<close> make their one call to the provider and return its answer;
  \<open>get_balance\<close> raises the not-connected error and calls nothing.
\<close>

theorem queries_without_session:
  "\<not> is_connected c \<Longrightarrow>
     get_network_info e c w
       = (respond e (calls w) Provider_get_network_info, c,
          w\<lparr>calls := calls w @ [Provider_get_network_info]\<rparr>)
   \<and> get_transaction e tx_hash c w
       = (respond e (calls w) (Provider_get_transaction tx_hash), c,
          w\<lparr>calls := calls w @ [Provider_get_transaction tx_hash]\<rparr>)
   \<and> wait_for_transaction e tx_hash confirmations timeout c w
       = (respond e (calls w) (Provider_wait_for_transaction tx_hash confirmations timeout),
          c,
          w\<lparr>calls := calls w @ [Provider_wait_for_transaction tx_hash confirmations timeout]\<rparr>)
   \<and> get_balance e token_address c w
       = (Inl (EnterL2Error ''Client not connected''), c, w)"
  by (simp add: get_network_info_def get_transaction_def wait_for_transaction_def
      get_balance_def delegate_def collaborator_call_def not_connected_def)

theorem queries_without_session_witness:
  "\<not> is_connected init_client
   \<and> get_network_info env_ok init_client init_world
       = (Inr (PyStr ''ok''), init_client,
          \<lparr>calls = [Provider_get_network_info],
           provider_account = None, invoked = [], stdout = []\<rparr>)
   \<and> get_transaction env_ok ''0xABC'' init_client init_world
       = (Inr (PyStr ''ok''), init_client,
          \<lparr>calls = [Provider_get_transaction ''0xABC''],
           provider_account = None, invoked = [], stdout = []\<rparr>)
   \<and> wait_for_transaction env_ok ''0xABC'' 1 60 init_client init_world
       = (Inr (PyStr ''ok''), init_client,
          \<lparr>calls = [Provider_wait_for_transaction ''0xABC'' 1 60],
           provider_account = None, invoked = [], stdout = []\<rparr>)
   \<and> get_balance env_ok None init_client init_world
       = (Inl (EnterL2Error ''Client not connected''), init_client, init_world)"
proof -
  have h: "\<not> is_connected init_client"
    by (simp add: is_connected_def init_client_def)
  show ?thesis
    using h queries_without_session [OF h, of env_ok init_world "''0xABC''" 1 60 None]
    by (simp add: init_world_def env_ok_def)
qed

subsection \<open>Event dispatcher\<close>





text \<open>\<open>on\<close> and \<open>off\<close> never remove a key, and leave the other events alone.\<close>

lemma on_keeps_keys: "event_callbacks c ev \<noteq> None \<Longrightarrow> event_callbacks (on event cb c) ev \<noteq> None"
  by (auto simp add: on_def Let_def split: option.splits)

lemma off_keeps_keys: "event_callbacks c ev \<noteq> None \<Longrightarrow> event_callbacks (off event cb c) ev \<noteq> None"
  by (auto simp add: off_def split: option.splits sum.splits)

lemma run_keeps_keys:
  "event_callbacks c ev \<noteq> None \<Longrightarrow> event_callbacks (run_registry_calls ks c) ev \<noteq> None"
proof (induction ks arbitrary: c)
  case Nil
  then show ?case by simp
next
  case (Cons k ks)
  have "event_callbacks (apply_registry_call k c) ev \<noteq> None"
    using Cons.prems by (cases k) (simp_all add: on_keeps_keys off_keeps_keys)
  then show ?case
    using Cons.IH by simp
qed

lemma on_other_event:
  "event \<noteq> ev \<Longrightarrow> event_callbacks (on event cb c) ev = event_callbacks c ev"
  by (simp add: on_def Let_def split: option.splits)

lemma off_other_event:
  "event \<noteq> ev \<Longrightarrow> event_callbacks (off event cb c) ev = event_callbacks c ev"
  by (simp add: off_def split: option.splits sum.splits)

lemma run_other_events:
  "\<forall>a \<in> set ks. registry_event a \<noteq> ev \<Longrightarrow>
     event_callbacks (run_registry_calls ks c) ev = event_callbacks c ev"
proof (induction ks arbitrary: c)
  case Nil
  show ?case by simp
next
  case (Cons k ks)
  then show ?case
    by (cases k) (simp_all add: on_other_event off_other_event)
qed



lemma spec_reports_append:
  "spec_reports e h (xs @ ys) d
     = spec_reports e h xs d @ spec_reports e (h @ map (\<lambda>k. (k, d)) xs) ys d"
  by (induction xs arbitrary: h) simp_all

text \<open>
  The loop from index \<open>i\<close>, when moreover every callable of the list returns or raises
  an exception that the handler catches and can form the text of, and every line is
  printed: the loop returns, all the rest of the list is invoked, and the lines printed
  are the reports.
\<close>

lemma emit_loop_isolated:
  assumes quiet: "\<forall>h k. k \<in> set cbs \<longrightarrow>
                    (\<forall>a \<in> set (fst (callback e h k d)). registry_event a \<noteq> ev)"
    and going: "\<forall>h k. k \<in> set cbs \<longrightarrow> keeps_going (snd (callback e h k d))"
    and prints: "\<forall>out line. print_raises e out line = None"
  shows "event_callbacks c ev = Some cbs \<Longrightarrow> n = length cbs - i \<Longrightarrow>
     \<exists>out. emit_loop e ev d i c w = Some out
       \<and> result_of out = Inr PyNone
       \<and> event_callbacks (client_of out) ev = Some cbs
       \<and> world_of out
           = w\<lparr>invoked := invoked w @ map (\<lambda>k. (k, d)) (drop i cbs),
               stdout := stdout w @ spec_reports e (invoked w) (drop i cbs) d\<rparr>"
proof (induction n arbitrary: i c w)
  case 0
  then have "\<not> i < length cbs" by simp
  then have "emit_loop e ev d i c w = Some (Inr PyNone, c, w)"
    using "0.prems"(1) by (subst emit_loop.simps) simp
  moreover have "drop i cbs = []"
    using \<open>\<not> i < length cbs\<close> by simp
  ultimately show ?case
    using "0.prems"(1) by (simp add: client_of_def world_of_def result_of_def)
next
  case (Suc n)
  then have less: "i < length cbs" by simp
  then have mem: "cbs ! i \<in> set cbs" by simp
  obtain ks r where cb: "callback e (invoked w) (cbs ! i) d = (ks, r)"
    by (cases "callback e (invoked w) (cbs ! i) d")
  define c1 where "c1 = run_registry_calls ks c"
  define w1 where "w1 = w\<lparr>invoked := invoked w @ [(cbs ! i, d)]\<rparr>"
  have inv: "invoke e (cbs ! i) d c w = (r, c1, w1)"
    by (simp add: invoke_def cb c1_def w1_def)
  have "\<forall>a \<in> set ks. registry_event a \<noteq> ev"
    using quiet mem cb by (metis fst_conv)
  then have reg1: "event_callbacks c1 ev = Some cbs"
    using Suc.prems(1) by (simp add: c1_def run_other_events)
  have ok: "keeps_going r"
    using going mem cb by (metis snd_conv)
  have split: "drop i cbs = cbs ! i # drop (Suc i) cbs"
    using less by (simp add: Cons_nth_drop_Suc)
  have rest: "n = length cbs - Suc i"
    using Suc.prems(2) by simp
  show ?case
  proof (cases r)
    case (Inr v)
    have unfold: "emit_loop e ev d i c w = emit_loop e ev d (Suc i) c1 w1"
      using Suc.prems(1) less inv Inr by (subst emit_loop.simps) simp
    obtain out where out: "emit_loop e ev d (Suc i) c1 w1 = Some out"
        and res: "result_of out = Inr PyNone"
        and keep: "event_callbacks (client_of out) ev = Some cbs"
        and wo: "world_of out
           = w1\<lparr>invoked := invoked w1 @ map (\<lambda>k. (k, d)) (drop (Suc i) cbs),
               stdout := stdout w1 @ spec_reports e (invoked w1) (drop (Suc i) cbs) d\<rparr>"
      using Suc.IH [OF reg1 rest, of w1] by blast
    have "world_of out
           = w\<lparr>invoked := invoked w @ map (\<lambda>k. (k, d)) (drop i cbs),
               stdout := stdout w @ spec_reports e (invoked w) (drop i cbs) d\<rparr>"
      using wo cb Inr by (simp add: split w1_def)
    then show ?thesis
      using unfold out res keep by simp
  next
    case (Inl x)
    have catch: "is_Exception x"
      using ok Inl by (simp add: keeps_going_def)
    obtain s where strx: "str x = Inr s"
      using ok Inl by (auto simp add: keeps_going_def split: sum.splits)
    define w2 where "w2 = w1\<lparr>stdout := stdout w1 @ [''Error in event callback: '' @ s]\<rparr>"
    have rep: "report e x w1 = (Inr PyNone, w2)"
      using prints by (simp add: report_def print_def strx w2_def)
    have unfold: "emit_loop e ev d i c w = emit_loop e ev d (Suc i) c1 w2"
      using Suc.prems(1) less inv Inl catch rep by (subst emit_loop.simps) simp
    obtain out where out: "emit_loop e ev d (Suc i) c1 w2 = Some out"
        and res: "result_of out = Inr PyNone"
        and keep: "event_callbacks (client_of out) ev = Some cbs"
        and wo: "world_of out
           = w2\<lparr>invoked := invoked w2 @ map (\<lambda>k. (k, d)) (drop (Suc i) cbs),
               stdout := stdout w2 @ spec_reports e (invoked w2) (drop (Suc i) cbs) d\<rparr>"
      using Suc.IH [OF reg1 rest, of w2] by blast
    have "world_of out
           = w\<lparr>invoked := invoked w @ map (\<lambda>k. (k, d)) (drop i cbs),
               stdout := stdout w @ spec_reports e (invoked w) (drop i cbs) d\<rparr>"
      using wo cb Inl strx by (simp add: split w1_def w2_def)
    then show ?thesis
      using unfold out res keep by simp
  qed
qed



lemma emit_isolated:
  assumes reg: "event_callbacks c ev = Some cbs"
    and quiet: "\<forall>h k. k \<in> set cbs \<longrightarrow>
                    (\<forall>a \<in> set (fst (callback e h k d)). registry_event a \<noteq> ev)"
    and going: "\<forall>h k. k \<in> set cbs \<longrightarrow> keeps_going (snd (callback e h k d))"
    and prints: "\<forall>out line. print_raises e out line = None"
  shows "\<exists>out. emit e ev d c w = Some out
       \<and> result_of out = Inr PyNone
       \<and> event_callbacks (client_of out) ev = Some cbs
       \<and> world_of out
           = w\<lparr>invoked := invoked w @ map (\<lambda>k. (k, d)) cbs,
               stdout := stdout w @ spec_reports e (invoked w) cbs d\<rparr>"
proof -
  from emit_loop_isolated [OF quiet going prints reg, of "length cbs - 0" 0 w]
  obtain out where "emit_loop e ev d 0 c w = Some out"
      and "result_of out = Inr PyNone"
      and "event_callbacks (client_of out) ev = Some cbs"
      and "world_of out
           = w\<lparr>invoked := invoked w @ map (\<lambda>k. (k, d)) cbs,
               stdout := stdout w @ spec_reports e (invoked w) cbs d\<rparr>"
    by auto
  moreover have "emit e ev d c w = emit_loop e ev d 0 c w"
    using reg by (simp add: emit_def)
  ultimately show ?thesis
    by simp
qed

lemma three_listeners_tx: "event_callbacks three_listeners ''tx'' = Some [1, 2, 3]"
  by (simp add: three_listeners_def on_def init_client_def)


lemma run_exit:
  "emit env_exit ''tx'' d three_listeners init_world
     = Some (Inl (RaisedBase ''SystemExit'' ''0''), three_listeners,
             init_world\<lparr>invoked := [(1, d), (2, d)]\<rparr>)"
  by (simp add: emit_def emit_loop.simps three_listeners_tx invoke_def env_exit_def
      init_world_def)

lemma run_stdout_closed:
  "emit env_stdout_closed ''tx'' d three_listeners init_world
     = Some (Inl (Raised ''ValueError'' ''I/O operation on closed file''), three_listeners,
             init_world\<lparr>invoked := [(1, d), (2, d)]\<rparr>)"
  by (simp add: emit_def emit_loop.simps three_listeners_tx invoke_def env_stdout_closed_def
      init_world_def report_def print_def)

lemma run_unprintable:
  "emit env_unprintable ''tx'' d three_listeners init_world
     = Some (Inl (Raised ''TypeError'' ''__str__ returned non-string''), three_listeners,
             init_world\<lparr>invoked := [(1, d), (2, d)]\<rparr>)"
  by (simp add: emit_def emit_loop.simps three_listeners_tx invoke_def env_unprintable_def
      init_world_def report_def print_def)

lemma run_raise_and_leave:
  "emit env_raise_and_leave ''tx'' d three_listeners init_world
     = Some (Inr PyNone, off ''tx'' 2 three_listeners,
             init_world\<lparr>invoked := [(1, d), (2, d)],
               stdout := [''Error in event callback: boom'']\<rparr>)"
  by (simp add: emit_def emit_loop.simps three_listeners_tx invoke_def
      env_raise_and_leave_def init_world_def report_def print_def off_def list_remove_def)





text \<open>
  C3, as stated, fails, in four ways, each with callbacks 1, 2, 3 registered for
  \<^verbatim>\<open>tx\<close>. When 2 raises \<^verbatim>\<open>SystemExit\<close>, \<^verbatim>\<open>except Exception\<close> does not catch it.
  When 2 raises a \<^verbatim>\<open>RuntimeError\<close> and standard output is closed, the \<^verbatim>\<open>print\<close>
  of the handler raises \<^verbatim>\<open>ValueError\<close>. When 2 raises an exception whose text cannot
  be formed, the f-string of the handler raises \<^verbatim>\<open>TypeError\<close>. In these three runs an
  exception leaves \<open>emit\<close> and 3 is not invoked. When 2 unregisters itself and then raises
  a \<^verbatim>\<open>RuntimeError\<close>, the error is printed and \<open>emit\<close> returns, but 3 is not invoked.
\<close>

theorem emit_failure_escapes_counterexample:
  "callbacks_of three_listeners ''tx'' = [1, 2, 3]
   \<and> raised (emit env_exit ''tx'' (PyInt 5) three_listeners init_world)
       = Some (RaisedBase ''SystemExit'' ''0'')
   \<and> invocations (emit env_exit ''tx'' (PyInt 5) three_listeners init_world)
       = Some [(1, PyInt 5), (2, PyInt 5)]
   \<and> raised (emit env_stdout_closed ''tx'' (PyInt 5) three_listeners init_world)
       = Some (Raised ''ValueError'' ''I/O operation on closed file'')
   \<and> invocations (emit env_stdout_closed ''tx'' (PyInt 5) three_listeners init_world)
       = Some [(1, PyInt 5), (2, PyInt 5)]
   \<and> raised (emit env_unprintable ''tx'' (PyInt 5) three_listeners init_world)
       = Some (Raised ''TypeError'' ''__str__ returned non-string'')
   \<and> invocations (emit env_unprintable ''tx'' (PyInt 5) three_listeners init_world)
       = Some [(1, PyInt 5), (2, PyInt 5)]
   \<and> raised (emit env_raise_and_leave ''tx'' (PyInt 5) three_listeners init_world) = None
   \<and> invocations (emit env_raise_and_leave ''tx'' (PyInt 5) three_listeners init_world)
       = Some [(1, PyInt 5), (2, PyInt 5)]"
  by (simp add: run_exit run_stdout_closed run_unprintable run_raise_and_leave
      callbacks_of_def three_listeners_tx invocations_def raised_def world_of_def
      result_of_def)

text \<open>
  C3, amended. When a callback registered for an event raises an instance of
  \<^verbatim>\<open>Exception\<close> whose text can be formed, and during that \<open>emit\<close> no callback of the
  event calls \<open>on\<close> or \<open>off\<close> for the event, every callback of the event returns or
  raises such an exception, and \<^verbatim>\<open>print\<close> does not raise, then the callbacks after it
  are still invoked, in order, \<open>emit\<close> ends and returns normally, and the error is
  reported on standard output, in its turn among the reports of the other callbacks.
\<close>

theorem emit_isolates_failures:
  assumes "event_callbacks c ev = Some (pre @ cb # post)"
    and "snd (callback e (invoked w @ map (\<lambda>k. (k, d)) pre) cb d) = Inl x"
    and "str x = Inr s"
    and "\<forall>h k. k \<in> set (pre @ cb # post) \<longrightarrow>
           (\<forall>a \<in> set (fst (callback e h k d)). registry_event a \<noteq> ev)"
    and "\<forall>h k. k \<in> set (pre @ cb # post) \<longrightarrow> keeps_going (snd (callback e h k d))"
    and "\<forall>out line. print_raises e out line = None"
  shows "\<exists>out. emit e ev d c w = Some out
       \<and> result_of out = Inr PyNone
       \<and> callbacks_of (client_of out) ev = pre @ cb # post
       \<and> invoked (world_of out)
           = invoked w @ map (\<lambda>k. (k, d)) pre @ (cb, d) # map (\<lambda>k. (k, d)) post
       \<and> stdout (world_of out)
           = stdout w @ spec_reports e (invoked w) pre d
               @ [''Error in event callback: '' @ s]
               @ spec_reports e (invoked w @ map (\<lambda>k. (k, d)) pre @ [(cb, d)]) post d"
proof -
  obtain out where out: "emit e ev d c w = Some out"
      and res: "result_of out = Inr PyNone"
      and keep: "event_callbacks (client_of out) ev = Some (pre @ cb # post)"
      and wo: "world_of out
           = w\<lparr>invoked := invoked w @ map (\<lambda>k. (k, d)) (pre @ cb # post),
               stdout := stdout w @ spec_reports e (invoked w) (pre @ cb # post) d\<rparr>"
    using emit_isolated [OF assms(1) assms(4) assms(5) assms(6), of w] by blast
  have rep: "spec_reports e (invoked w) (pre @ cb # post) d
      = spec_reports e (invoked w) pre d
          @ [''Error in event callback: '' @ s]
          @ spec_reports e (invoked w @ map (\<lambda>k. (k, d)) pre @ [(cb, d)]) post d"
    using assms(2) assms(3) by (simp add: spec_reports_append)
  have "callbacks_of (client_of out) ev = pre @ cb # post"
    using keep by (simp add: callbacks_of_def)
  moreover have "invoked (world_of out)
           = invoked w @ map (\<lambda>k. (k, d)) pre @ (cb, d) # map (\<lambda>k. (k, d)) post"
    using wo by simp
  moreover have "stdout (world_of out)
           = stdout w @ spec_reports e (invoked w) pre d
               @ [''Error in event callback: '' @ s]
               @ spec_reports e (invoked w @ map (\<lambda>k. (k, d)) pre @ [(cb, d)]) post d"
    using wo rep by simp
  ultimately show ?thesis
    using out res by blast
qed

theorem emit_isolates_failures_witness:
  "event_callbacks three_listeners ''tx'' = Some ([1] @ 2 # [3])
   \<and> snd (callback env_second_raises (invoked init_world @ map (\<lambda>k. (k, PyInt 5)) [1]) 2
            (PyInt 5))
       = Inl (Raised ''RuntimeError'' ''boom'')
   \<and> str (Raised ''RuntimeError'' ''boom'') = Inr ''boom''
   \<and> is_Exception (Raised ''RuntimeError'' ''boom'')
   \<and> print_raises env_second_raises [] ''Error in event callback: boom'' = None
   \<and> raised (emit env_second_raises ''tx'' (PyInt 5) three_listeners init_world) = None
   \<and> invocations (emit env_second_raises ''tx'' (PyInt 5) three_listeners init_world)
       = Some [(1, PyInt 5), (2, PyInt 5), (3, PyInt 5)]
   \<and> emit env_second_raises ''tx'' (PyInt 5) three_listeners init_world
       = Some (Inr PyNone, three_listeners,
               \<lparr>calls = [], provider_account = None,
                invoked = [(1, PyInt 5), (2, PyInt 5), (3, PyInt 5)],
                stdout = [''Error in event callback: boom'']\<rparr>)"
proof -
  have h1: "event_callbacks three_listeners ''tx'' = Some ([1] @ 2 # [3])"
    by (simp add: three_listeners_tx)
  have h2: "snd (callback env_second_raises (invoked init_world @ map (\<lambda>k. (k, PyInt 5)) [1]) 2
              (PyInt 5)) = Inl (Raised ''RuntimeError'' ''boom'')"
    by (simp add: env_second_raises_def)
  have h3: "str (Raised ''RuntimeError'' ''boom'') = Inr ''boom''"
    by simp
  have h4: "\<forall>h k. k \<in> set ([1] @ 2 # [3]) \<longrightarrow>
           (\<forall>a \<in> set (fst (callback env_second_raises h k (PyInt 5))).
              registry_event a \<noteq> ''tx'')"
    by (simp add: env_second_raises_def)
  have h5: "\<forall>h k. k \<in> set ([1] @ 2 # [3]) \<longrightarrow>
              keeps_going (snd (callback env_second_raises h k (PyInt 5)))"
    by (simp add: env_second_raises_def keeps_going_def)
  have h6: "\<forall>out line. print_raises env_second_raises out line = None"
    by (simp add: env_second_raises_def)
  obtain out where out: "emit env_second_raises ''tx'' (PyInt 5) three_listeners init_world
                           = Some out"
      and res: "result_of out = Inr PyNone"
      and inv: "invoked (world_of out)
                  = invoked init_world @ map (\<lambda>k. (k, PyInt 5)) [1]
                      @ (2, PyInt 5) # map (\<lambda>k. (k, PyInt 5)) [3]"
    using emit_isolates_failures [OF h1 h2 h3 h4 h5 h6] by blast
  have a: "raised (emit env_second_raises ''tx'' (PyInt 5) three_listeners init_world) = None"
    using out res by (simp add: raised_def)
  have b: "invocations (emit env_second_raises ''tx'' (PyInt 5) three_listeners init_world)
       = Some [(1, PyInt 5), (2, PyInt 5), (3, PyInt 5)]"
    using out inv by (simp add: invocations_def init_world_def)
  have c: "emit env_second_raises ''tx'' (PyInt 5) three_listeners init_world
       = Some (Inr PyNone, three_listeners,
               \<lparr>calls = [], provider_account = None,
                invoked = [(1, PyInt 5), (2, PyInt 5), (3, PyInt 5)],
                stdout = [''Error in event callback: boom'']\<rparr>)"
    by (simp add: emit_def emit_loop.simps three_listeners_tx invoke_def
        env_second_raises_def init_world_def report_def print_def)
  have d: "print_raises env_second_raises [] ''Error in event callback: boom'' = None"
    by (simp add: env_second_raises_def)
  show ?thesis
    using h1 h2 h3 a b c d by simp
qed

subsection \<open>Session lifecycle\<close>

lemma parse_key_key1: "parse_key key1 = Inr alice"
  by code_simp

lemma parse_key_malformed:
  "parse_key ''not a key'' = Inl (Raised ''ValueError'' ''bad private key'')"
  by (simp add: parse_key_def)

lemma provider_set_account_eq:
  "provider_set_account e a w
     = (case respond e (calls w) (Provider_set_account a) of
          Inl x \<Rightarrow> (Inl x, w\<lparr>calls := calls w @ [Provider_set_account a]\<rparr>)
        | Inr v \<Rightarrow> (Inr v, w\<lparr>calls := calls w @ [Provider_set_account a],
                            provider_account := a\<rparr>))"
  by (simp add: provider_set_account_def collaborator_call_def split: sum.splits)

text \<open>
  C4, as stated, fails: with a key that parses and a provider whose \<open>set_account\<close>
  raises, \<open>connect\<close> raises \<^verbatim>\<open>EnterL2Error\<close> after the account has been assigned to the
  client. The client was disconnected and is now connected, and the provider has no
  account: neither a complete session nor the state before the call.
\<close>

theorem connect_partial_session_counterexample:
  "\<not> (fully_connected (client_of (connect env_provider_down key1 init_client init_world))
                       (world_of (connect env_provider_down key1 init_client init_world))
      \<or> client_of (connect env_provider_down key1 init_client init_world) = init_client)
   \<and> result_of (connect env_provider_down key1 init_client init_world)
       = Inl (EnterL2Error ''Failed to connect: unreachable'')
   \<and> \<not> is_connected init_client
   \<and> is_connected (client_of (connect env_provider_down key1 init_client init_world))
   \<and> provider_account (world_of (connect env_provider_down key1 init_client init_world))
       = None"
  by (simp add: connect_def connect_failure_def provider_set_account_eq
      env_provider_down_def parse_key_key1 init_client_def init_world_def
      fully_connected_def is_connected_def client_of_def world_of_def result_of_def Let_def)

text \<open>
  C4, amended. When the key material does not parse, \<open>connect\<close> calls no collaborator and
  leaves the client and the provider as they were; the failure being an instance of
  \<^verbatim>\<open>Exception\<close> whose text can be formed, as a parse failure is, \<open>connect\<close> raises
  \<^verbatim>\<open>EnterL2Error\<close> with the message \<^verbatim>\<open>Failed to connect: \<close> followed by that text.
  When the key parses and the provider's \<open>set_account\<close> returns, \<open>connect\<close> returns with
  the account bound to the client and to the provider; and whenever \<open>connect\<close> returns
  without raising, the session is complete.
\<close>

theorem connect_malformed_or_complete:
  "(from_key e private_key = Inl x \<and> is_Exception x \<and> str x = Inr s \<longrightarrow>
      connect e private_key c w
        = (Inl (EnterL2Error (''Failed to connect: '' @ s)), c, w))
   \<and> (from_key e private_key = Inl x \<longrightarrow>
      connect e private_key c w
        = (Inl (if is_Exception x then connect_failure x else x), c, w))
   \<and> (from_key e private_key = Inr a
        \<and> respond e (calls w) (Provider_set_account (Some a)) = Inr v \<longrightarrow>
      connect e private_key c w
        = (Inr PyNone, c\<lparr>account := Some a\<rparr>,
           w\<lparr>calls := calls w @ [Provider_set_account (Some a)],
             provider_account := Some a\<rparr>))
   \<and> (result_of (connect e private_key c w) = Inr v' \<longrightarrow>
      fully_connected (client_of (connect e private_key c w))
                      (world_of (connect e private_key c w)))"
  by (auto simp add: connect_def connect_failure_def provider_set_account_eq
      fully_connected_def client_of_def world_of_def result_of_def Let_def
      split: sum.splits)

theorem connect_malformed_or_complete_witness:
  "from_key env_ok ''not a key'' = Inl (Raised ''ValueError'' ''bad private key'')
   \<and> is_Exception (Raised ''ValueError'' ''bad private key'')
   \<and> str (Raised ''ValueError'' ''bad private key'') = Inr ''bad private key''
   \<and> connect env_ok ''not a key'' init_client init_world
       = (Inl (EnterL2Error ''Failed to connect: bad private key''), init_client, init_world)
   \<and> \<not> is_connected init_client
   \<and> from_key env_ok key1 = Inr alice
   \<and> respond env_ok (calls init_world) (Provider_set_account (Some alice)) = Inr (PyStr ''ok'')
   \<and> connect env_ok key1 init_client init_world
       = (Inr PyNone,
          \<lparr>account = Some alice, event_callbacks = Map.empty\<rparr>,
          \<lparr>calls = [Provider_set_account (Some alice)], provider_account = Some alice,
           invoked = [], stdout = []\<rparr>)
   \<and> result_of (connect env_ok key1 init_client init_world) = Inr PyNone
   \<and> fully_connected (client_of (connect env_ok key1 init_client init_world))
                      (world_of (connect env_ok key1 init_client init_world))"
proof -
  have bad: "from_key env_ok ''not a key'' = Inl (Raised ''ValueError'' ''bad private key'')"
    by (simp add: env_ok_def parse_key_malformed)
  have caught: "is_Exception (Raised ''ValueError'' ''bad private key'')"
    and formed: "str (Raised ''ValueError'' ''bad private key'') = Inr ''bad private key''"
    by simp_all
  have good: "from_key env_ok key1 = Inr alice"
    by (simp add: env_ok_def parse_key_key1)
  have answer: "respond env_ok (calls init_world) (Provider_set_account (Some alice))
                  = Inr (PyStr ''ok'')"
    by (simp add: env_ok_def)
  have first: "connect env_ok ''not a key'' init_client init_world
       = (Inl (EnterL2Error ''Failed to connect: bad private key''), init_client, init_world)"
    using bad caught formed connect_malformed_or_complete
      [where e = env_ok and private_key = "''not a key''"
         and x = "Raised ''ValueError'' ''bad private key''" and s = "''bad private key''"
         and c = init_client and w = init_world]
    by simp
  have second: "connect env_ok key1 init_client init_world
       = (Inr PyNone, init_client\<lparr>account := Some alice\<rparr>,
          init_world\<lparr>calls := calls init_world @ [Provider_set_account (Some alice)],
             provider_account := Some alice\<rparr>)"
    using good answer connect_malformed_or_complete
      [where e = env_ok and private_key = key1 and a = alice and v = "PyStr ''ok''"
         and c = init_client and w = init_world]
    by blast
  have res: "result_of (connect env_ok key1 init_client init_world) = Inr PyNone"
    by (simp add: second result_of_def)
  have third: "fully_connected (client_of (connect env_ok key1 init_client init_world))
                      (world_of (connect env_ok key1 init_client init_world))"
    using res connect_malformed_or_complete
      [where e = env_ok and private_key = key1 and v' = PyNone
         and c = init_client and w = init_world]
    by blast
  have second': "connect env_ok key1 init_client init_world
       = (Inr PyNone,
          \<lparr>account = Some alice, event_callbacks = Map.empty\<rparr>,
          \<lparr>calls = [Provider_set_account (Some alice)], provider_account = Some alice,
           invoked = [], stdout = []\<rparr>)"
    unfolding second by (simp add: init_client_def init_world_def)
  have fresh: "\<not> is_connected init_client"
    by (simp add: is_connected_def init_client_def)
  show ?thesis
    using bad caught formed good answer first second' res third fresh
    by simp
qed

text \<open>
  C5. \<open>disconnect\<close> always clears the account of the client, whatever the provider
  answers, and a second \<open>disconnect\<close> leaves the client as the first one left it; on a
  client that is already disconnected it leaves the client as it was. After one or two
  calls \<open>address\<close> is \<^verbatim>\<open>None\<close> and \<open>is_connected\<close> is false. Each call passes
  \<^verbatim>\<open>None\<close> to the provider's \<open>set_account\<close> once, and when that returns the provider
  has no account either.
\<close>

theorem disconnect_idempotent:
  "client_of (disconnect e (client_of (disconnect e c w)) (world_of (disconnect e c w)))
     = client_of (disconnect e c w)
   \<and> client_of (disconnect e c w) = c\<lparr>account := None\<rparr>
   \<and> address (client_of (disconnect e c w)) = None
   \<and> \<not> is_connected (client_of (disconnect e c w))
   \<and> address (client_of (disconnect e (client_of (disconnect e c w))
                            (world_of (disconnect e c w)))) = None
   \<and> \<not> is_connected (client_of (disconnect e (client_of (disconnect e c w))
                                    (world_of (disconnect e c w))))
   \<and> calls (world_of (disconnect e c w)) = calls w @ [Provider_set_account None]
   \<and> (\<not> is_connected c \<longrightarrow> client_of (disconnect e c w) = c)
   \<and> (respond e (calls w) (Provider_set_account None) = Inr v \<longrightarrow>
        disconnect e c w
          = (Inr PyNone, c\<lparr>account := None\<rparr>,
             w\<lparr>calls := calls w @ [Provider_set_account None], provider_account := None\<rparr>))"
proof -
  have once: "client_of (disconnect e c' w') = c'\<lparr>account := None\<rparr>" for c' w'
    by (simp add: disconnect_def provider_set_account_eq client_of_def Let_def
        split: sum.splits)
  have log: "calls (world_of (disconnect e c w)) = calls w @ [Provider_set_account None]"
    by (simp add: disconnect_def provider_set_account_eq world_of_def Let_def
        split: sum.splits)
  have same: "\<not> is_connected c \<longrightarrow> c\<lparr>account := None\<rparr> = c"
    by (simp add: is_connected_def)
  have answered: "respond e (calls w) (Provider_set_account None) = Inr v \<longrightarrow>
        disconnect e c w
          = (Inr PyNone, c\<lparr>account := None\<rparr>,
             w\<lparr>calls := calls w @ [Provider_set_account None], provider_account := None\<rparr>)"
    by (simp add: disconnect_def provider_set_account_eq Let_def)
  show ?thesis
    using same answered by (simp add: once log address_def is_connected_def)
qed

theorem disconnect_idempotent_witness:
  "client_of (disconnect env_ok connected_client init_world) = init_client
   \<and> client_of (disconnect env_ok
                  (client_of (disconnect env_ok connected_client init_world))
                  (world_of (disconnect env_ok connected_client init_world))) = init_client
   \<and> \<not> is_connected init_client
   \<and> client_of (disconnect env_ok init_client init_world) = init_client
   \<and> respond env_ok (calls init_world) (Provider_set_account None) = Inr (PyStr ''ok'')
   \<and> disconnect env_ok connected_client init_world
       = (Inr PyNone, init_client,
          \<lparr>calls = [Provider_set_account None], provider_account = None,
           invoked = [], stdout = []\<rparr>)"
proof -
  note from_connected =
    disconnect_idempotent [of env_ok connected_client init_world "PyStr ''ok''"]
  note from_fresh =
    disconnect_idempotent [of env_ok init_client init_world "PyStr ''ok''"]
  have h1: "\<not> is_connected init_client"
    by (simp add: is_connected_def init_client_def)
  have h2: "respond env_ok (calls init_world) (Provider_set_account None) = Inr (PyStr ''ok'')"
    by (simp add: env_ok_def)
  have cleared: "connected_client\<lparr>account := None\<rparr> = init_client"
    by (simp add: connected_client_def init_client_def)
  have once: "client_of (disconnect env_ok connected_client init_world) = init_client"
    using from_connected cleared by simp
  have twice: "client_of (disconnect env_ok
                  (client_of (disconnect env_ok connected_client init_world))
                  (world_of (disconnect env_ok connected_client init_world))) = init_client"
    using from_connected once by simp
  have fresh: "client_of (disconnect env_ok init_client init_world) = init_client"
    using from_fresh h1 by blast
  have whole: "disconnect env_ok connected_client init_world
       = (Inr PyNone, init_client,
          \<lparr>calls = [Provider_set_account None], provider_account = None,
           invoked = [], stdout = []\<rparr>)"
  proof -
    have "disconnect env_ok connected_client init_world
          = (Inr PyNone, connected_client\<lparr>account := None\<rparr>,
             init_world\<lparr>calls := calls init_world @ [Provider_set_account None],
               provider_account := None\<rparr>)"
      using from_connected h2 by blast
    then show ?thesis
      by (simp add: cleared init_world_def)
  qed
  show ?thesis
    using h1 h2 once twice fresh whole by simp
qed

subsection \<open>Closing\<close>

text \<open>
  C8, as stated, fails: when the provider's \<open>close\<close> raises, \<open>close\<close> of the client stops
  there and the registry keeps its callbacks.
\<close>

theorem close_keeps_registry_counterexample:
  "event_callbacks (client_of (close env_provider_down three_listeners init_world)) ''tx''
       = Some [1, 2, 3]
   \<and> result_of (close env_provider_down three_listeners init_world)
       = Inl (Raised ''NetworkError'' ''unreachable'')"
proof -
  have kept: "event_callbacks (client_of (close env_provider_down three_listeners init_world))
                ''tx'' = Some [1, 2, 3]"
    by (simp add: close_def collaborator_call_def env_provider_down_def client_of_def
        three_listeners_def on_def init_client_def)
  have raised: "result_of (close env_provider_down three_listeners init_world)
       = Inl (Raised ''NetworkError'' ''unreachable'')"
    by (simp add: close_def collaborator_call_def env_provider_down_def result_of_def)
  from kept raised show ?thesis by simp
qed

text \<open>
  C8, amended. \<open>close\<close> calls the provider's \<open>close\<close> once, before anything else. When
  that call returns, the event registry is emptied; when it raises, the exception leaves
  \<open>close\<close> and the registry is as it was. \<^verbatim>\<open>__aenter__\<close> returns the client itself,
  and \<^verbatim>\<open>__aexit__\<close> does what \<open>close\<close> does, whatever exception it is told about.
\<close>

theorem close_releases_then_clears:
  "calls (world_of (close e c w)) = calls w @ [Provider_close]
   \<and> (respond e (calls w) Provider_close = Inr v \<longrightarrow>
        close e c w
          = (Inr PyNone, c\<lparr>event_callbacks := Map.empty\<rparr>,
             w\<lparr>calls := calls w @ [Provider_close]\<rparr>))
   \<and> (respond e (calls w) Provider_close = Inl x \<longrightarrow>
        close e c w = (Inl x, c, w\<lparr>calls := calls w @ [Provider_close]\<rparr>))
   \<and> aenter c w = (c, c, w)
   \<and> aexit e exc c w = close e c w"
  by (simp add: close_def aexit_def aenter_def collaborator_call_def world_of_def
      split: sum.splits)

theorem close_releases_then_clears_witness:
  "respond env_ok (calls init_world) Provider_close = Inr (PyStr ''ok'')
   \<and> close env_ok three_listeners init_world
       = (Inr PyNone, three_listeners\<lparr>event_callbacks := Map.empty\<rparr>,
          \<lparr>calls = [Provider_close], provider_account = None, invoked = [], stdout = []\<rparr>)
   \<and> aexit env_ok (Some (Raised ''RuntimeError'' ''boom'')) three_listeners init_world
       = close env_ok three_listeners init_world
   \<and> respond env_provider_down (calls init_world) Provider_close
       = Inl (Raised ''NetworkError'' ''unreachable'')
   \<and> close env_provider_down three_listeners init_world
       = (Inl (Raised ''NetworkError'' ''unreachable''), three_listeners,
          \<lparr>calls = [Provider_close], provider_account = None, invoked = [], stdout = []\<rparr>)"
proof -
  have h1: "respond env_ok (calls init_world) Provider_close = Inr (PyStr ''ok'')"
    by (simp add: env_ok_def)
  have h2: "respond env_provider_down (calls init_world) Provider_close
       = Inl (Raised ''NetworkError'' ''unreachable'')"
    by (simp add: env_provider_down_def)
  show ?thesis
    using h1 h2
      close_releases_then_clears [of env_ok three_listeners init_world "PyStr ''ok''" _
        "Some (Raised ''RuntimeError'' ''boom'')"]
      close_releases_then_clears [of env_provider_down three_listeners init_world _
        "Raised ''NetworkError'' ''unreachable''" None]
    by (simp add: init_world_def)
qed

end
